theory Spec2Isabelle
  imports Main
begin

section \<open>Data model of the cluster resource manager client\<close>

text \<open>
  The development embeds the class \<open>PCSResourceManager\<close> of
  \<open>src/file-sharing/src/tabs/iSCSI/types/ConfigurationManager.ts\<close>.
  A string is a list of 8-bit characters, each standing for the UTF-16 code unit of the
  same number: the texts of the model are those whose code units lie below 256. On
  these the character classes and the case folding below are the JavaScript ones.
\<close>

text \<open>
  Modelled from the spec: the enum \<open>PCSResourceType\<close> is declared in
  \<open>cluster/PCSResource.ts\<close>, which is not part of the sources at hand. The code names
  \<open>TARGET\<close>, \<open>PORTBLOCK_ON\<close> and \<open>PORTBLOCK_OFF\<close>; the specification adds \<open>VIP\<close>
  "and other primitives", which are the constructor \<open>OTHER\<close>.
\<close>

datatype PCSResourceType = PORTBLOCK_ON | VIP | TARGET | PORTBLOCK_OFF | OTHER nat

text \<open>One row of the table \<open>PCSResourceTypeInfo\<close> (also declared in \<open>PCSResource.ts\<close>).\<close>

record PCSResourceTypeInfo =
  internalTypeName :: string
  orderInGroup :: int

text \<open>
  A \<open>PCSResource\<close> object: \<open>name\<close>, \<open>resourceType\<close> and the optional \<open>resourceGroup\<close>.
  A \<open>PCSResourceGroup\<close> has the single field \<open>name\<close>, so the group reference is kept as
  that name.
\<close>

record PCSResource =
  name :: string
  resourceType :: PCSResourceType
  resourceGroup :: "string option"

text \<open>The JSON shapes \<open>PCSResourceConfigJson\<close> and \<open>PCSConfigJson\<close> at the end of the file.\<close>

record nvpair =
  nv_id :: string
  nv_name :: string
  nv_value :: string

record PCSResourceConfigJson =
  prim_id :: string
  agent_name_type :: string
  instance_attributes :: "nvpair list list"

record PCSGroupJson =
  group_id :: string
  member_ids :: "string list"

record PCSConfigJson =
  primitives :: "PCSResourceConfigJson list option"
  groups :: "PCSGroupJson list option"

text \<open>Commands handed to \<open>server.execute\<close>, with the options object they carry.\<close>

datatype CommandOptions = NoOptions | SuperuserTry

datatype command = Command "string list" CommandOptions | BashCommand string CommandOptions

datatype error = ProcessError string | ParsingError string

text \<open>
  What awaiting a \<open>ResultAsync\<close> gives: \<open>Ok\<close> or \<open>Err\<close> inside the result channel, or a
  rejected promise. A \<open>throw\<close> inside the generator passed to \<open>safeTry\<close>, and an exception
  raised inside a \<open>map\<close> callback, both reject the promise.
\<close>

datatype exn = TypeError | Thrown error

datatype 'a outcome = Ok 'a | Err error | Rejected exn

text \<open>
  The collaborators that are not part of the class: the server (its answer to a command
  may depend on the commands it has executed before; only the standard output of the
  finished process is read), the library function \<open>safeJsonParse\<close>, the string an
  error object interpolates to, and the resource type table with the numeric value of
  each enum member and the enumeration order of \<open>Object.values\<close>. \<open>createResource\<close>
  executes its command on the server it receives as an argument; that server is the one
  of the object here. The second argument \<open>false\<close> that \<open>locate\<close> hands to \<open>execute\<close>
  concerns how the server's answer is turned into a result and is part of \<open>execute\<close>.
\<close>

record env =
  execute :: "command list \<Rightarrow> command \<Rightarrow> error + string"
  safeJsonParse :: "string \<Rightarrow> error + PCSConfigJson"
  errorString :: "error \<Rightarrow> string"
  typeValues :: "PCSResourceType list"
  typeNumber :: "PCSResourceType \<Rightarrow> nat"
  typeInfo :: "PCSResourceType \<Rightarrow> PCSResourceTypeInfo"

text \<open>
  The mutable state: the object store (resources are objects, and the cache holds
  references to them), the next free address, the field \<open>currentResources\<close>
  (\<open>None\<close> is \<open>undefined\<close>) and the commands the server has executed so far.
\<close>

record world =
  store :: "nat \<Rightarrow> PCSResource"
  nextRef :: nat
  currentResources :: "nat list option"
  issued :: "command list"

definition deref :: "world \<Rightarrow> nat \<Rightarrow> PCSResource" where
  "deref w r = store w r"

definition alloc :: "PCSResource \<Rightarrow> world \<Rightarrow> nat \<times> world" where
  "alloc obj w = (nextRef w, w\<lparr>store := (store w)(nextRef w := obj), nextRef := Suc (nextRef w)\<rparr>)"

fun allocAll :: "PCSResource list \<Rightarrow> world \<Rightarrow> nat list \<times> world" where
  "allocAll [] w = ([], w)"
| "allocAll (obj # objs) w =
     (case alloc obj w of (r, w1) \<Rightarrow> (case allocAll objs w1 of (rs, w2) \<Rightarrow> (r # rs, w2)))"

text \<open>The resources the cache refers to, with their current field values.\<close>

definition snapshot :: "world \<Rightarrow> PCSResource list option" where
  "snapshot w = map_option (map (deref w)) (currentResources w)"

text \<open>\<open>server.execute\<close>: the command is recorded, the server answers from its history.\<close>

definition run :: "env \<Rightarrow> world \<Rightarrow> command \<Rightarrow> (error + string) \<times> world" where
  "run e w cmd = (execute e (issued w) cmd, w\<lparr>issued := issued w @ [cmd]\<rparr>)"

section \<open>String helpers\<close>

text \<open>Truthiness of a \<open>string | undefined\<close> value: \<open>undefined\<close> and the empty string are falsy.\<close>

fun truthy :: "string option \<Rightarrow> bool" where
  "truthy None = False"
| "truthy (Some s) = (s \<noteq> [])"

fun startsWith :: "string \<Rightarrow> string \<Rightarrow> bool" where
  "startsWith s [] = True"
| "startsWith [] (c # cs) = False"
| "startsWith (x # xs) (c # cs) = (x = c \<and> startsWith xs cs)"

text \<open>\<open>String.prototype.includes\<close>.\<close>

fun includesStr :: "string \<Rightarrow> string \<Rightarrow> bool" where
  "includesStr [] sub = (sub = [])"
| "includesStr (x # xs) sub = (startsWith (x # xs) sub \<or> includesStr xs sub)"


text \<open>
  \<open>name.replace(':', '_')\<close>: with a string pattern, \<open>String.prototype.replace\<close> replaces the
  first occurrence only.
\<close>

fun replaceFirst :: "char \<Rightarrow> char \<Rightarrow> string \<Rightarrow> string" where
  "replaceFirst a b [] = []"
| "replaceFirst a b (x # xs) = (if x = a then b # xs else x # replaceFirst a b xs)"

text \<open>The test \<open>/[\r\n]/.test(value)\<close> of \<open>ensureSingleLine\<close>.\<close>

definition hasLineBreak :: "string \<Rightarrow> bool" where
  "hasLineBreak v = (CHR 0x0D \<in> set v \<or> CHR 0x0A \<in> set v)"

definition ensureSingleLine :: "string \<Rightarrow> string \<Rightarrow> error + string" where
  "ensureSingleLine v label =
     (if hasLineBreak v then Inl (ProcessError (label @ '' must be a single line.'')) else Inr v)"

section \<open>Resource lifecycle\<close>

text \<open>
  \<open>createResource\<close>. The command object is built first; it is executed only when the
  creation arguments pass \<open>ensureSingleLine\<close>. The \<open>map\<close> callback builds the resource and
  spreads \<open>this.currentResources!\<close>, which raises a \<open>TypeError\<close> when the field is
  \<open>undefined\<close>.
\<close>

definition createCommand :: "string \<Rightarrow> string \<Rightarrow> command" where
  "createCommand resourceName creationArguments =
     BashCommand (''pcs resource create '' @ [CHR 0x27] @ resourceName @ [CHR 0x27] @ '' ''
                  @ creationArguments) SuperuserTry"

definition deleteCommand :: "string \<Rightarrow> command" where
  "deleteCommand nm = Command [''pcs'', ''resource'', ''delete'', nm] SuperuserTry"

definition createResource ::
  "env \<Rightarrow> world \<Rightarrow> string \<Rightarrow> string \<Rightarrow> PCSResourceType \<Rightarrow> nat outcome \<times> world" where
  "createResource e w nm creationArguments ty =
     (let resourceName = replaceFirst (CHR '':'') (CHR ''_'') nm;
          creationCommand = createCommand resourceName creationArguments
      in case ensureSingleLine creationArguments ''PCS creation arguments'' of
           Inl err \<Rightarrow> (Err err, w)
         | Inr _ \<Rightarrow>
            (case run e w creationCommand of
               (Inl err, w1) \<Rightarrow> (Err err, w1)
             | (Inr _, w1) \<Rightarrow>
                (case alloc \<lparr>name = resourceName, resourceType = ty, resourceGroup = None\<rparr> w1 of
                   (r, w2) \<Rightarrow>
                    (case currentResources w2 of
                       None \<Rightarrow> (Rejected TypeError, w2)
                     | Some rs \<Rightarrow> (Ok r, w2\<lparr>currentResources := Some (rs @ [r])\<rparr>)))))"

text \<open>\<open>deleteResource\<close>: only the name of its argument is read.\<close>

definition deleteResource :: "env \<Rightarrow> world \<Rightarrow> string \<Rightarrow> unit outcome \<times> world" where
  "deleteResource e w nm =
     (case run e w (deleteCommand nm) of
        (Inl err, w1) \<Rightarrow> (Err err, w1)
      | (Inr _, w1) \<Rightarrow>
         (case currentResources w1 of
            None \<Rightarrow> (Rejected TypeError, w1)
          | Some rs \<Rightarrow>
             (Ok (), w1\<lparr>currentResources := Some (filter (\<lambda>r. name (deref w1 r) \<noteq> nm) rs)\<rparr>)))"

text \<open>\<open>deleteResourceGroup\<close>: keeps the resources whose \<open>resourceGroup?.name\<close> differs.\<close>

definition deleteResourceGroup :: "env \<Rightarrow> world \<Rightarrow> string \<Rightarrow> unit outcome \<times> world" where
  "deleteResourceGroup e w g =
     (case run e w (deleteCommand g) of
        (Inl err, w1) \<Rightarrow> (Err err, w1)
      | (Inr _, w1) \<Rightarrow>
         (case currentResources w1 of
            None \<Rightarrow> (Rejected TypeError, w1)
          | Some rs \<Rightarrow>
             (Ok (), w1\<lparr>currentResources :=
                          Some (filter (\<lambda>r. resourceGroup (deref w1 r) \<noteq> Some g) rs)\<rparr>)))"

section \<open>Resource type classification\<close>

text \<open>
  The two nested loops over \<open>instance_attributes\<close> and their \<open>nvpairs\<close> stop at the first
  pair named \<open>action\<close>, in document order.
\<close>

definition findAction :: "nvpair list list \<Rightarrow> nvpair option" where
  "findAction attrs = find (\<lambda>p. nv_name p = ''action'') (concat attrs)"

text \<open>
  The loop of \<open>getResourceTypeOfPCSResource\<close> over the enum members. A member whose agent
  name is the shared \<open>portblock\<close> returns only when an \<open>action\<close> pair exists; otherwise
  the loop goes on with the next member, and \<open>undefined\<close> is returned after the last.
\<close>

fun classifyLoop :: "env \<Rightarrow> PCSResourceType list \<Rightarrow> PCSResourceConfigJson \<Rightarrow> PCSResourceType option" where
  "classifyLoop e [] res = None"
| "classifyLoop e (ty # tys) res =
     (let info = typeInfo e ty
      in if internalTypeName info = agent_name_type res then
           (if internalTypeName info = ''portblock'' then
              (case findAction (instance_attributes res) of
                 Some nv \<Rightarrow> Some (if nv_value nv = ''block'' then PORTBLOCK_ON else PORTBLOCK_OFF)
               | None \<Rightarrow> classifyLoop e tys res)
            else Some ty)
         else classifyLoop e tys res)"

definition getResourceTypeOfPCSResource :: "env \<Rightarrow> PCSResourceConfigJson \<Rightarrow> PCSResourceType option" where
  "getResourceTypeOfPCSResource e res = classifyLoop e (typeValues e) res"

section \<open>The snapshot cache\<close>

text \<open>
  The callback that turns one primitive of the parsed configuration into a resource.
  \<open>!resourceType\<close> is also true for the enum member whose numeric value is 0.
\<close>

definition toResource :: "env \<Rightarrow> PCSGroupJson list \<Rightarrow> PCSResourceConfigJson \<Rightarrow> PCSResource option" where
  "toResource e grps res =
     (case getResourceTypeOfPCSResource e res of
        None \<Rightarrow> None
      | Some ty \<Rightarrow>
         if typeNumber e ty = 0 then None
         else (let groupObject = map_option group_id (find (\<lambda>g. prim_id res \<in> set (member_ids g)) grps)
               in if ty \<noteq> TARGET \<or> groupObject \<noteq> None
                  then Some \<lparr>name = prim_id res, resourceType = ty, resourceGroup = groupObject\<rparr>
                  else None))"

definition bulkQuery :: command where
  "bulkQuery = Command [''pcs'', ''resource'', ''config'', ''--output-format'', ''json''] NoOptions"

text \<open>\<open>cfg.primitives ?? []\<close>.\<close>

definition orEmpty :: "'a list option \<Rightarrow> 'a list" where
  "orEmpty xs = (case xs of None \<Rightarrow> [] | Some ys \<Rightarrow> ys)"

definition fetchResources :: "env \<Rightarrow> world \<Rightarrow> nat list outcome \<times> world" where
  "fetchResources e w =
     (case currentResources w of
        Some rs \<Rightarrow> (Ok rs, w)
      | None \<Rightarrow>
         (case run e w bulkQuery of
            (Inl err, w1) \<Rightarrow>
              (Err (ProcessError (''Unable to get current PCS configuration: '' @ errorString e err)), w1)
          | (Inr out, w1) \<Rightarrow>
              (case safeJsonParse e out of
                 Inl err \<Rightarrow>
                   (Err (ProcessError (''Unable to get current PCS configuration: '' @ errorString e err)), w1)
               | Inr cfg \<Rightarrow>
                   (case allocAll (List.map_filter (toResource e (orEmpty (groups cfg)))
                                                   (orEmpty (primitives cfg))) w1 of
                      (rs, w2) \<Rightarrow> (Ok rs, w2\<lparr>currentResources := Some rs\<rparr>)))))"

section \<open>Regular expressions of the resolver\<close>

text \<open>
  The three regular expressions of \<open>getGroupActiveNode\<close> are sequences of the items below,
  matched with backtracking in the order the JavaScript engine tries the alternatives:
  a greedy quantifier tries the longest run first, a lazy one the shortest. All three
  carry the flag \<open>i\<close>; the two of the status text also carry \<open>m\<close>.
\<close>

datatype cclass = Space | NotSpace | NotNewline

datatype ritem =
    Lit string
  | Star cclass
  | Plus cclass
  | LazyStar cclass
  | Bol
  | WordBoundary
  | Capture cclass

text \<open>
  The class \<open>\s\<close>: white space and line terminators. Below 256 these are tab, line feed,
  vertical tab, form feed, carriage return, space and the no-break space \<open>U+00A0\<close>.
\<close>

definition isSpace :: "char \<Rightarrow> bool" where
  "isSpace c =
     (c \<in> set [CHR 0x20, CHR 0x09, CHR 0x0A, CHR 0x0B, CHR 0x0C, CHR 0x0D, CHR 0xA0])"

definition isLineTerminator :: "char \<Rightarrow> bool" where
  "isLineTerminator c = (c = CHR 0x0A \<or> c = CHR 0x0D)"

definition isWordChar :: "char \<Rightarrow> bool" where
  "isWordChar c =
     (let n = of_char c :: nat
      in (48 \<le> n \<and> n \<le> 57) \<or> (65 \<le> n \<and> n \<le> 90) \<or> (97 \<le> n \<and> n \<le> 122) \<or> n = 95)"

fun inClass :: "cclass \<Rightarrow> char \<Rightarrow> bool" where
  "inClass Space c = isSpace c"
| "inClass NotSpace c = (\<not> isSpace c)"
| "inClass NotNewline c = (c \<noteq> CHR 0x0A)"

text \<open>
  Case folding of the flag \<open>i\<close> (without the flag \<open>u\<close>): a character is compared as its
  upper-case form when that form is a single code unit, and never as an ASCII character
  unless it is one itself. Below 256 the letters \<open>a\<close> to \<open>z\<close> fold onto \<open>A\<close> to \<open>Z\<close>, and
  the Latin-1 letters \<open>0xE0\<close> to \<open>0xFE\<close>, the division sign \<open>0xF7\<close> apart, onto \<open>0xC0\<close> to
  \<open>0xDE\<close>. Every other character is compared as itself: the upper-case forms of \<open>0xB5\<close>
  and \<open>0xFF\<close> lie above 255 and are shared with no character below 256, and that of
  \<open>0xDF\<close> is two code units long.
\<close>

definition canon :: "char \<Rightarrow> char" where
  "canon c =
     (let n = of_char c :: nat
      in if (97 \<le> n \<and> n \<le> 122) \<or> (224 \<le> n \<and> n \<le> 254 \<and> n \<noteq> 247)
         then char_of (n - 32) else c)"

text \<open>
  A match result is the text of capture group 1 (if the expression has one) and the
  input that follows the match. A continuation takes the character before the current
  position (none at the start of the input) and the rest of the input.
\<close>

type_synonym mres = "(string option \<times> string) option"

type_synonym cont = "char option \<Rightarrow> string \<Rightarrow> mres"

fun firstSome :: "('a \<Rightarrow> 'b option) \<Rightarrow> 'a list \<Rightarrow> 'b option" where
  "firstSome f [] = None"
| "firstSome f (x # xs) = (case f x of Some y \<Rightarrow> Some y | None \<Rightarrow> firstSome f xs)"

definition runLength :: "cclass \<Rightarrow> string \<Rightarrow> nat" where
  "runLength cls s = length (takeWhile (inClass cls) s)"

definition charBefore :: "char option \<Rightarrow> string \<Rightarrow> nat \<Rightarrow> char option" where
  "charBefore prev s i = (if i = 0 then prev else Some (s ! (i - 1)))"

text \<open>Consume \<open>i\<close> characters for the first \<open>i\<close> of the list that lets the rest match.\<close>

definition tryCounts :: "nat list \<Rightarrow> cont \<Rightarrow> cont" where
  "tryCounts ns k prev s = firstSome (\<lambda>i. k (charBefore prev s i) (drop i s)) ns"

definition setCapture :: "string \<Rightarrow> string option \<times> string \<Rightarrow> string option \<times> string" where
  "setCapture c r = (Some c, snd r)"

primrec matchItem :: "ritem \<Rightarrow> cont \<Rightarrow> cont" where
  "matchItem (Lit t) k = (\<lambda>prev s.
     if length t \<le> length s \<and> map canon (take (length t) s) = map canon t
     then k (charBefore prev s (length t)) (drop (length t) s) else None)"
| "matchItem (Star cls) k = (\<lambda>prev s. tryCounts (rev [0 ..< Suc (runLength cls s)]) k prev s)"
| "matchItem (Plus cls) k = (\<lambda>prev s. tryCounts (rev [1 ..< Suc (runLength cls s)]) k prev s)"
| "matchItem (LazyStar cls) k = (\<lambda>prev s. tryCounts [0 ..< Suc (runLength cls s)] k prev s)"
| "matchItem Bol k = (\<lambda>prev s.
     case prev of None \<Rightarrow> k prev s | Some c \<Rightarrow> if isLineTerminator c then k prev s else None)"
| "matchItem WordBoundary k = (\<lambda>prev s.
     if (case prev of None \<Rightarrow> False | Some c \<Rightarrow> isWordChar c)
        \<noteq> (case s of [] \<Rightarrow> False | c # _ \<Rightarrow> isWordChar c)
     then k prev s else None)"
| "matchItem (Capture cls) k = (\<lambda>prev s.
     firstSome (\<lambda>i. map_option (setCapture (take i s)) (k (charBefore prev s i) (drop i s)))
               (rev [1 ..< Suc (runLength cls s)]))"

definition matchHere :: "ritem list \<Rightarrow> cont" where
  "matchHere items = foldr matchItem items (\<lambda>prev s. Some (None, s))"

text \<open>\<open>String.prototype.match\<close> without the flag \<open>g\<close>: the leftmost position that matches.\<close>

fun searchFrom :: "ritem list \<Rightarrow> char option \<Rightarrow> string \<Rightarrow> mres" where
  "searchFrom items prev [] = matchHere items prev []"
| "searchFrom items prev (c # cs) =
     (case matchHere items prev (c # cs) of
        Some r \<Rightarrow> Some r
      | None \<Rightarrow> searchFrom items (Some c) cs)"

definition regexMatch :: "ritem list \<Rightarrow> string \<Rightarrow> mres" where
  "regexMatch items s = searchFrom items None s"

text \<open>\<open>/is running on:\s+([^\s\n]+)/i\<close>, and the node or \<open>undefined\<close> that \<open>locate\<close> maps to.\<close>

definition locateRegex :: "ritem list" where
  "locateRegex = [Lit ''is running on:'', Plus Space, Capture NotSpace]"

definition parseLocate :: "string \<Rightarrow> string option" where
  "parseLocate out = (case regexMatch locateRegex out of None \<Rightarrow> None | Some (cap, _) \<Rightarrow> cap)"

text \<open>
  \<open>parseGroupFromStatusText\<close>. The group identifier is escaped before it is put into the
  header expression, so it is matched as literal text.
\<close>

definition hdrRegex :: "string \<Rightarrow> ritem list" where
  "hdrRegex groupId =
     [Bol, Star Space, Lit ''*'', Star Space, Lit ''Resource'', Plus Space, Lit ''Group:'',
      Star Space, Lit groupId, Star Space, Lit '':'']"

definition startedRegex :: "ritem list" where
  "startedRegex =
     [Bol, Star Space, Lit ''*'', Star Space, LazyStar NotNewline, WordBoundary, Lit ''Started'',
      Plus Space, Capture NotSpace]"

definition parseGroupFromStatusText :: "string \<Rightarrow> string \<Rightarrow> string option" where
  "parseGroupFromStatusText text groupId =
     (case regexMatch (hdrRegex groupId) text of
        None \<Rightarrow> None
      | Some (_, tail) \<Rightarrow>
         (case regexMatch startedRegex tail of None \<Rightarrow> None | Some (cap, _) \<Rightarrow> cap))"

section \<open>Active node resolution\<close>

definition locateCommand :: "string \<Rightarrow> command" where
  "locateCommand rid = Command [''crm_resource'', ''--locate'', ''--resource'', rid] NoOptions"









text \<open>\<open>perMember.find(x => x.id.includes(marker) && x.node)?.node\<close>.\<close>

definition preferred :: "string \<Rightarrow> (string \<times> string option) list \<Rightarrow> string option" where
  "preferred marker perMember =
     (case find (\<lambda>x. includesStr (fst x) marker \<and> truthy (snd x)) perMember of
        None \<Rightarrow> None
      | Some x \<Rightarrow> snd x)"




text \<open>A truthy string, or nothing.\<close>

fun asTruthy :: "string option \<Rightarrow> string option" where
  "asTruthy None = None"
| "asTruthy (Some s) = (if s = [] then None else Some s)"

definition membersOf :: "world \<Rightarrow> nat list \<Rightarrow> string \<Rightarrow> PCSResource list" where
  "membersOf w refs g = filter (\<lambda>r. resourceGroup r = Some g) (map (deref w) refs)"




section \<open>Anchor resolution\<close>

text \<open>
  The loop over \<open>grp.member_ids\<close>. \<open>byId\<close> maps a member name to the cached member; an
  identifier without a cached member is skipped, and the loop ends early once both
  anchors are truthy.
\<close>

fun anchorLoop ::
  "(string \<Rightarrow> PCSResource option) \<Rightarrow> string list \<Rightarrow> string option \<times> string option
   \<Rightarrow> string option \<times> string option" where
  "anchorLoop byId [] acc = acc"
| "anchorLoop byId (rid # rids) (targetId, portBlockOffId) =
     (case byId rid of
        None \<Rightarrow> anchorLoop byId rids (targetId, portBlockOffId)
      | Some r \<Rightarrow>
         (let targetId' = (if \<not> truthy targetId \<and> resourceType r = TARGET
                           then Some (name r) else targetId);
              portBlockOffId' = (if \<not> truthy portBlockOffId \<and> resourceType r = PORTBLOCK_OFF
                                 then Some (name r) else portBlockOffId)
          in if truthy targetId' \<and> truthy portBlockOffId' then (targetId', portBlockOffId')
             else anchorLoop byId rids (targetId', portBlockOffId')))"

text \<open>\<open>new Map(members.map(r => [r.name, r]))\<close>: of two members with one name the later stays.\<close>

definition byIdOf :: "PCSResource list \<Rightarrow> string \<Rightarrow> PCSResource option" where
  "byIdOf members = map_of (rev (map (\<lambda>r. (name r, r)) members))"

definition noTargetMessage :: "string \<Rightarrow> string" where
  "noTargetMessage g = ''No TARGET primitive found in group '' @ [CHR 0x27] @ g @ [CHR 0x27] @ ''.''"

definition noPortBlockOffMessage :: "string \<Rightarrow> string" where
  "noPortBlockOffMessage g =
     ''No PORTBLOCK_OFF primitive found in group '' @ [CHR 0x27] @ g @ [CHR 0x27] @ ''.''"

definition getAnchorsForGroup :: "env \<Rightarrow> world \<Rightarrow> string \<Rightarrow> (string \<times> string) outcome \<times> world" where
  "getAnchorsForGroup e w g =
     (case fetchResources e w of
        (Err err, w1) \<Rightarrow> (Err err, w1)
      | (Rejected x, w1) \<Rightarrow> (Rejected x, w1)
      | (Ok refs, w1) \<Rightarrow>
         if membersOf w1 refs g = [] then
           (Rejected (Thrown (ProcessError
              (''Group '' @ [CHR 0x27] @ g @ [CHR 0x27] @ '' not found or has no members.''))), w1)
         else
           (case run e w1 bulkQuery of
              (Inl err, w2) \<Rightarrow>
                (Err (ProcessError (''Unable to get PCS configuration: '' @ errorString e err)), w2)
            | (Inr out, w2) \<Rightarrow>
               (case safeJsonParse e out of
                  Inl err \<Rightarrow>
                    (Err (ProcessError (''Unable to get PCS configuration: '' @ errorString e err)), w2)
                | Inr cfg \<Rightarrow>
                   (case find (\<lambda>gr. group_id gr = g) (orEmpty (groups cfg)) of
                      None \<Rightarrow>
                        (Rejected (Thrown (ProcessError
                           (''Group '' @ [CHR 0x27] @ g @ [CHR 0x27]
                            @ '' not found in PCS configuration.''))), w2)
                    | Some grp \<Rightarrow>
                       (case anchorLoop (byIdOf (membersOf w1 refs g)) (member_ids grp) (None, None) of
                          (targetId, portBlockOffId) \<Rightarrow>
                           (case asTruthy targetId of
                              None \<Rightarrow> (Rejected (Thrown (ProcessError (noTargetMessage g))), w2)
                            | Some t \<Rightarrow>
                               (case asTruthy portBlockOffId of
                                  None \<Rightarrow>
                                    (Rejected (Thrown (ProcessError (noPortBlockOffMessage g))), w2)
                                | Some p \<Rightarrow> (Ok (t, p), w2))))))))"

section \<open>Group composition\<close>

definition rank :: "env \<Rightarrow> PCSResource \<Rightarrow> int" where
  "rank e r = orderInGroup (typeInfo e (resourceType r))"

text \<open>
  The member the new resource goes before: the members of the group, sorted by rank
  (the sort is stable), and of these the first whose rank is not below the new one.
\<close>

definition nextResourceOf :: "env \<Rightarrow> int \<Rightarrow> PCSResource list \<Rightarrow> PCSResource option" where
  "nextResourceOf e currentResourceIndex members =
     find (\<lambda>groupResource. currentResourceIndex \<le> rank e groupResource) (sort_key (rank e) members)"

definition groupAddCommand :: "string \<Rightarrow> string list \<Rightarrow> string \<Rightarrow> command" where
  "groupAddCommand g positionArgument nm =
     Command ([''pcs'', ''resource'', ''group'', ''add'', g] @ positionArgument @ [nm]) SuperuserTry"

text \<open>
  \<open>addResourceToGroup\<close>. Its first argument is a resource object, here the address of
  the object. The assignment \<open>resource.resourceGroup = resourceGroup\<close> stands before the
  command is executed and changes the object itself.
\<close>

definition addResourceToGroup :: "env \<Rightarrow> world \<Rightarrow> nat \<Rightarrow> string \<Rightarrow> unit outcome \<times> world" where
  "addResourceToGroup e w resource g =
     (let currentResourceIndex = rank e (deref w resource)
      in case fetchResources e w of
           (Err err, w1) \<Rightarrow> (Err err, w1)
         | (Rejected x, w1) \<Rightarrow> (Rejected x, w1)
         | (Ok refs, w1) \<Rightarrow>
            (let nextResource = nextResourceOf e currentResourceIndex (membersOf w1 refs g);
                 positionArgument = (case nextResource of
                                       None \<Rightarrow> []
                                     | Some n \<Rightarrow> [''--before'', name n]);
                 w2 = w1\<lparr>store := (store w1)(resource := (deref w1 resource)\<lparr>resourceGroup := Some g\<rparr>)\<rparr>
             in case run e w2 (groupAddCommand g positionArgument (name (deref w2 resource))) of
                  (Inl err, w3) \<Rightarrow> (Err err, w3)
                | (Inr _, w3) \<Rightarrow> (Ok (), w3)))"

section \<open>Example inputs\<close>

text \<open>
  A resource type table, a server that answers from a table of commands, and worlds
  with a given cache, on which the definitions are run.
\<close>

definition exampleInfo :: "PCSResourceType \<Rightarrow> PCSResourceTypeInfo" where
  "exampleInfo ty =
     (case ty of
        PORTBLOCK_ON \<Rightarrow> \<lparr>internalTypeName = ''portblock'', orderInGroup = 0\<rparr>
      | VIP \<Rightarrow> \<lparr>internalTypeName = ''IPaddr2'', orderInGroup = 1\<rparr>
      | OTHER n \<Rightarrow> \<lparr>internalTypeName = (if n = 0 then ''LVM-activate'' else ''iSCSILogicalUnit''),
                     orderInGroup = 2 + 2 * int n\<rparr>
      | TARGET \<Rightarrow> \<lparr>internalTypeName = ''iSCSITarget'', orderInGroup = 3\<rparr>
      | PORTBLOCK_OFF \<Rightarrow> \<lparr>internalTypeName = ''portblock'', orderInGroup = 5\<rparr>)"

definition exampleNumber :: "PCSResourceType \<Rightarrow> nat" where
  "exampleNumber ty =
     (case ty of PORTBLOCK_ON \<Rightarrow> 0 | VIP \<Rightarrow> 1 | OTHER n \<Rightarrow> 2 + 2 * n | TARGET \<Rightarrow> 3 | PORTBLOCK_OFF \<Rightarrow> 5)"

definition tableServer :: "(command \<times> (error + string)) list \<Rightarrow> command list \<Rightarrow> command \<Rightarrow> error + string" where
  "tableServer answers history cmd =
     (case map_of answers cmd of Some r \<Rightarrow> r | None \<Rightarrow> Inl (ProcessError ''command failed''))"

definition exampleEnv :: "(command \<times> (error + string)) list \<Rightarrow> (string \<times> PCSConfigJson) list \<Rightarrow> env" where
  "exampleEnv answers configs =
     \<lparr>execute = tableServer answers,
      safeJsonParse = (\<lambda>s. case map_of configs s of
                              Some cfg \<Rightarrow> Inr cfg
                            | None \<Rightarrow> Inl (ParsingError ''unexpected token'')),
      errorString = (\<lambda>err. case err of ProcessError m \<Rightarrow> ''ProcessError: '' @ m
                                      | ParsingError m \<Rightarrow> ''ParsingError: '' @ m),
      typeValues = [PORTBLOCK_ON, VIP, OTHER 0, TARGET, OTHER 1, PORTBLOCK_OFF],
      typeNumber = exampleNumber,
      typeInfo = exampleInfo\<rparr>"

definition resource :: "string \<Rightarrow> PCSResourceType \<Rightarrow> string option \<Rightarrow> PCSResource" where
  "resource nm ty g = \<lparr>name = nm, resourceType = ty, resourceGroup = g\<rparr>"

text \<open>A world whose cache holds the given resources, and one whose cache is absent.\<close>

definition worldOf :: "PCSResource list \<Rightarrow> world" where
  "worldOf rs =
     \<lparr>store = (\<lambda>i. if i < length rs then rs ! i else resource [] VIP None),
      nextRef = length rs,
      currentResources = Some [0 ..< length rs],
      issued = []\<rparr>"

definition freshWorld :: world where
  "freshWorld = \<lparr>store = (\<lambda>i. resource [] VIP None), nextRef = 0, currentResources = None, issued = []\<rparr>"

definition exampleConfig :: PCSConfigJson where
  "exampleConfig =
     \<lparr>primitives = Some
        [\<lparr>prim_id = ''g1_VIP_1'', agent_name_type = ''IPaddr2'', instance_attributes = []\<rparr>,
         \<lparr>prim_id = ''g1_TARGET_1'', agent_name_type = ''iSCSITarget'', instance_attributes = []\<rparr>,
         \<lparr>prim_id = ''g1_pb_off'', agent_name_type = ''portblock'',
          instance_attributes = [[\<lparr>nv_id = ''a1'', nv_name = ''action'', nv_value = ''unblock''\<rparr>]]\<rparr>],
      groups = Some [\<lparr>group_id = ''g1'', member_ids = [''g1_VIP_1'', ''g1_TARGET_1'', ''g1_pb_off'']\<rparr>]\<rparr>"


text \<open>The type the cached member with identifier \<open>rid\<close> has is \<open>ty\<close>.\<close>

definition resolvesTo :: "(string \<Rightarrow> PCSResource option) \<Rightarrow> PCSResourceType \<Rightarrow> string \<Rightarrow> bool" where
  "resolvesTo byId ty rid = (map_option resourceType (byId rid) = Some ty)"

definition g1Vip :: PCSResource where
  "g1Vip = resource ''g1_VIP_1'' VIP (Some ''g1'')"

definition g1Target :: PCSResource where
  "g1Target = resource ''g1_TARGET_1'' TARGET (Some ''g1'')"

definition g1PortBlockOff :: PCSResource where
  "g1PortBlockOff = resource ''g1_pb_off'' PORTBLOCK_OFF (Some ''g1'')"

definition configEnv :: env where
  "configEnv = exampleEnv [(bulkQuery, Inr ''{json}'')] [(''{json}'', exampleConfig)]"



definition running :: "string \<Rightarrow> string \<Rightarrow> command \<times> (error + string)" where
  "running rid node = (locateCommand rid, Inr (''is running on: '' @ node))"






text \<open>
  A server that accepts the creation of one resource and rejects every other command,
  and the world after that resource has been created next to two cached ones.
\<close>

definition lunEnv :: env where
  "lunEnv = exampleEnv [(createCommand ''new_lun'' ''path=/dev/rbd0'', Inr [])] []"

definition createdWorld :: world where
  "createdWorld = snd (createResource lunEnv (worldOf [g1Vip, g1Target]) ''new_lun'' ''path=/dev/rbd0'' (OTHER 1))"

section \<open>Facts about the state\<close>

lemma run_issued: "run e w cmd = (r, w1) \<Longrightarrow> issued w1 = issued w @ [cmd]"
  by (auto simp: run_def)

lemma allocAll_fields:
  "allocAll objs w = (rs, w1) \<Longrightarrow>
     issued w1 = issued w \<and> currentResources w1 = currentResources w \<and> nextRef w \<le> nextRef w1
     \<and> (\<forall>r < nextRef w. store w1 r = store w r)"
proof (induction objs arbitrary: w rs w1)
  case Nil
  then show ?case by simp
next
  case (Cons obj objs)
  obtain r wa where a: "alloc obj w = (r, wa)" by (cases "alloc obj w")
  obtain rs' wb where b: "allocAll objs wa = (rs', wb)" by (cases "allocAll objs wa")
  from Cons.prems a b have w1: "w1 = wb" by simp
  from a have wa: "issued wa = issued w" "currentResources wa = currentResources w"
    "nextRef wa = Suc (nextRef w)" "\<forall>r < nextRef w. store wa r = store w r"
    by (auto simp: alloc_def)
  from Cons.IH [OF b] wa w1 show ?case by auto
qed

section \<open>Validation of creation arguments\<close>

text \<open>
  C9. When the creation arguments contain a newline character, \<open>createResource\<close> fails
  inside the result channel with the single-line validation error, and the state is the
  one before the call: no command has reached the server and the cache is untouched.
\<close>

theorem createResource_newline_rejected:
  assumes "CHR 0x0A \<in> set creationArguments"
  shows "createResource e w nm creationArguments ty =
           (Err (ProcessError ''PCS creation arguments must be a single line.''), w)"
  using assms by (simp add: createResource_def ensureSingleLine_def hasLineBreak_def)

theorem createResource_newline_rejected_witness:
  "CHR 0x0A \<in> set (''ip=10.0.0.1'' @ [CHR 0x0A] @ ''rm -rf'')
   \<and> createResource (exampleEnv [] []) (worldOf []) ''r1'' (''ip=10.0.0.1'' @ [CHR 0x0A] @ ''rm -rf'') VIP
       = (Err (ProcessError ''PCS creation arguments must be a single line.''), worldOf [])"
  using createResource_newline_rejected [of "''ip=10.0.0.1'' @ [CHR 0x0A] @ ''rm -rf''" "exampleEnv [] []" "worldOf []" "''r1''" VIP]
  by simp

section \<open>Cache updates without a cache\<close>

text \<open>
  C10. While \<open>currentResources\<close> is \<open>undefined\<close>, each of \<open>createResource\<close>,
  \<open>deleteResource\<close> and \<open>deleteResourceGroup\<close> whose command the server executes
  successfully ends in a rejected promise carrying a \<open>TypeError\<close>, not in a failure of
  the result channel: the cache update spreads or filters the absent array.
\<close>

theorem cache_absent_update_rejects:
  assumes "currentResources w = None"
  shows "(\<not> hasLineBreak creationArguments
          \<and> execute e (issued w)
               (createCommand (replaceFirst (CHR '':'') (CHR ''_'') nm) creationArguments) = Inr out1
          \<longrightarrow> fst (createResource e w nm creationArguments ty) = Rejected TypeError)
       \<and> (execute e (issued w) (deleteCommand nm) = Inr out2
          \<longrightarrow> fst (deleteResource e w nm) = Rejected TypeError)
       \<and> (execute e (issued w) (deleteCommand g) = Inr out3
          \<longrightarrow> fst (deleteResourceGroup e w g) = Rejected TypeError)"
  using assms
  by (simp add: createResource_def deleteResource_def deleteResourceGroup_def run_def
        ensureSingleLine_def alloc_def Let_def)

theorem cache_absent_update_rejects_witness:
  "currentResources freshWorld = None
   \<and> fst (createResource (exampleEnv [(createCommand ''r1'' ''ip=10.0.0.1'', Inr [])] [])
            freshWorld ''r1'' ''ip=10.0.0.1'' VIP) = Rejected TypeError
   \<and> fst (deleteResource (exampleEnv [(deleteCommand ''r1'', Inr [])] []) freshWorld ''r1'')
       = Rejected TypeError
   \<and> fst (deleteResourceGroup (exampleEnv [(deleteCommand ''g1'', Inr [])] []) freshWorld ''g1'')
       = Rejected TypeError"
proof -
  have c: "currentResources freshWorld = None" by (simp add: freshWorld_def)
  have 1: "fst (createResource (exampleEnv [(createCommand ''r1'' ''ip=10.0.0.1'', Inr [])] [])
                  freshWorld ''r1'' ''ip=10.0.0.1'' VIP) = Rejected TypeError"
    using cache_absent_update_rejects [OF c, where creationArguments = "''ip=10.0.0.1''"
        and e = "exampleEnv [(createCommand ''r1'' ''ip=10.0.0.1'', Inr [])] []"
        and nm = "''r1''" and ?out1.0 = "[]" and ty = VIP]
    by (simp add: hasLineBreak_def exampleEnv_def tableServer_def)
  have 2: "fst (deleteResource (exampleEnv [(deleteCommand ''r1'', Inr [])] []) freshWorld ''r1'')
             = Rejected TypeError"
    using cache_absent_update_rejects [OF c,
        where e = "exampleEnv [(deleteCommand ''r1'', Inr [])] []" and nm = "''r1''" and ?out2.0 = "[]"]
    by (simp add: exampleEnv_def tableServer_def)
  have 3: "fst (deleteResourceGroup (exampleEnv [(deleteCommand ''g1'', Inr [])] []) freshWorld ''g1'')
             = Rejected TypeError"
    using cache_absent_update_rejects [OF c,
        where e = "exampleEnv [(deleteCommand ''g1'', Inr [])] []" and g = "''g1''" and ?out3.0 = "[]"]
    by (simp add: exampleEnv_def tableServer_def)
  from c 1 2 3 show ?thesis by simp
qed

section \<open>Repeated reads of the snapshot\<close>

text \<open>
  C8. When a call of \<open>fetchResources\<close> succeeds, a second call right after it returns the
  same sequence and leaves the state as it is, so it sends no command. If the cache was
  absent before the first call, that call has sent exactly one command, the bulk
  configuration query; if the cache was present, it has sent none.
\<close>

theorem fetchResources_idempotent:
  assumes "fetchResources e w = (Ok rs, w1)"
  shows "fetchResources e w1 = (Ok rs, w1)
         \<and> (currentResources w = None \<longrightarrow> issued w1 = issued w @ [bulkQuery])
         \<and> (currentResources w \<noteq> None \<longrightarrow> w1 = w)"
proof (cases "currentResources w")
  case None
  obtain res wa where r: "run e w bulkQuery = (res, wa)" by (cases "run e w bulkQuery")
  from r have ia: "issued wa = issued w @ [bulkQuery]" by (rule run_issued)
  from assms None r obtain objs wb where
    a: "allocAll objs wa = (rs, wb)" and w1: "w1 = wb\<lparr>currentResources := Some rs\<rparr>"
    by (auto simp: fetchResources_def split: sum.splits prod.splits)
  from allocAll_fields [OF a] ia w1 have "issued w1 = issued w @ [bulkQuery]" by simp
  moreover from w1 have "fetchResources e w1 = (Ok rs, w1)" by (simp add: fetchResources_def)
  ultimately show ?thesis using None by simp
next
  case (Some cached)
  with assms have "w1 = w" "rs = cached" by (auto simp: fetchResources_def)
  with Some show ?thesis by (simp add: fetchResources_def)
qed

theorem fetchResources_idempotent_witness:
  "fst (fetchResources (exampleEnv [(bulkQuery, Inr ''{json}'')] [(''{json}'', exampleConfig)]) freshWorld)
     = Ok [0, 1, 2]
   \<and> currentResources freshWorld = None
   \<and> fetchResources (exampleEnv [(bulkQuery, Inr ''{json}'')] [(''{json}'', exampleConfig)])
        (snd (fetchResources (exampleEnv [(bulkQuery, Inr ''{json}'')] [(''{json}'', exampleConfig)])
                freshWorld))
       = (Ok [0, 1, 2],
          snd (fetchResources (exampleEnv [(bulkQuery, Inr ''{json}'')] [(''{json}'', exampleConfig)])
                 freshWorld))
   \<and> issued (snd (fetchResources (exampleEnv [(bulkQuery, Inr ''{json}'')] [(''{json}'', exampleConfig)])
                     freshWorld))
       = [bulkQuery]"
proof -
  let ?E = "exampleEnv [(bulkQuery, Inr ''{json}'')] [(''{json}'', exampleConfig)]"
  have f: "fst (fetchResources ?E freshWorld) = Ok [0, 1, 2]" by code_simp
  have c: "currentResources freshWorld = None" "issued freshWorld = []"
    by (simp_all add: freshWorld_def)
  from f have h: "fetchResources ?E freshWorld = (Ok [0, 1, 2], snd (fetchResources ?E freshWorld))"
    by (metis prod.collapse)
  from fetchResources_idempotent [OF h] f c show ?thesis by simp
qed

section \<open>Classification of primitives\<close>

lemma find_uniq:
  assumes "x \<in> set xs" and "P x" and "\<And>y. y \<in> set xs \<Longrightarrow> P y \<Longrightarrow> y = x"
  shows "find P xs = Some x"
  using assms
proof (induction xs)
  case Nil
  then show ?case by simp
next
  case (Cons a xs)
  show ?case
  proof (cases "P a")
    case True
    have "a = x" by (rule Cons.prems(3)) (simp_all add: True)
    with True show ?thesis by simp
  next
    case False
    with Cons.prems(1,2) have "x \<in> set xs" by auto
    then have "find P xs = Some x"
      by (rule Cons.IH) (auto intro: Cons.prems)
    with False show ?thesis by simp
  qed
qed

lemma classifyLoop_no_action:
  "agent_name_type res = ''portblock'' \<Longrightarrow> findAction (instance_attributes res) = None
   \<Longrightarrow> classifyLoop e tys res = None"
  by (induction tys) (simp_all add: Let_def)

lemma classifyLoop_action:
  "agent_name_type res = ''portblock'' \<Longrightarrow> findAction (instance_attributes res) = Some nv
   \<Longrightarrow> \<exists>ty \<in> set tys. internalTypeName (typeInfo e ty) = ''portblock''
   \<Longrightarrow> classifyLoop e tys res = Some (if nv_value nv = ''block'' then PORTBLOCK_ON else PORTBLOCK_OFF)"
proof (induction tys)
  case Nil
  then show ?case by simp
next
  case (Cons ty tys)
  show ?case
  proof (cases "internalTypeName (typeInfo e ty) = ''portblock''")
    case True
    with Cons.prems(1,2) show ?thesis by (simp add: Let_def)
  next
    case False
    with Cons.prems(3) have "\<exists>ty \<in> set tys. internalTypeName (typeInfo e ty) = ''portblock''" by simp
    with Cons.IH [OF Cons.prems(1,2)] False Cons.prems(1) show ?thesis by (simp add: Let_def)
  qed
qed

lemma classifyLoop_other:
  "agent_name_type res \<noteq> ''portblock''
   \<Longrightarrow> classifyLoop e tys res = find (\<lambda>ty. internalTypeName (typeInfo e ty) = agent_name_type res) tys"
  by (induction tys) (simp_all add: Let_def)

text \<open>
  C7, as the code has it. A primitive whose agent name is not \<open>portblock\<close> and belongs
  to exactly one member \<open>ty\<close> of the enum is classified as \<open>ty\<close>. A \<open>portblock\<close> primitive
  (the table having a \<open>portblock\<close> row) is classified by its first \<open>action\<close> pair:
  \<open>PORTBLOCK_ON\<close> for the value \<open>block\<close>, \<open>PORTBLOCK_OFF\<close> for any other value. A
  \<open>portblock\<close> primitive without an \<open>action\<close> pair is not classified at all.
\<close>

theorem classification_by_agent_and_action:
  "(ty \<in> set (typeValues e) \<and> internalTypeName (typeInfo e ty) = agent_name_type res
      \<and> agent_name_type res \<noteq> ''portblock''
      \<and> (\<forall>ty' \<in> set (typeValues e). internalTypeName (typeInfo e ty') = agent_name_type res \<longrightarrow> ty' = ty)
      \<longrightarrow> getResourceTypeOfPCSResource e res = Some ty)
   \<and> (agent_name_type res = ''portblock''
      \<and> (\<exists>ty' \<in> set (typeValues e). internalTypeName (typeInfo e ty') = ''portblock'')
      \<and> findAction (instance_attributes res) = Some nv
      \<longrightarrow> getResourceTypeOfPCSResource e res
            = Some (if nv_value nv = ''block'' then PORTBLOCK_ON else PORTBLOCK_OFF))
   \<and> (agent_name_type res = ''portblock'' \<and> findAction (instance_attributes res) = None
      \<longrightarrow> getResourceTypeOfPCSResource e res = None)"
proof (intro conjI impI)
  assume a: "ty \<in> set (typeValues e) \<and> internalTypeName (typeInfo e ty) = agent_name_type res
      \<and> agent_name_type res \<noteq> ''portblock''
      \<and> (\<forall>ty' \<in> set (typeValues e). internalTypeName (typeInfo e ty') = agent_name_type res \<longrightarrow> ty' = ty)"
  then have "find (\<lambda>t. internalTypeName (typeInfo e t) = agent_name_type res) (typeValues e) = Some ty"
    by (intro find_uniq) blast+
  with a show "getResourceTypeOfPCSResource e res = Some ty"
    by (simp add: getResourceTypeOfPCSResource_def classifyLoop_other)
next
  assume b: "agent_name_type res = ''portblock''
      \<and> (\<exists>ty' \<in> set (typeValues e). internalTypeName (typeInfo e ty') = ''portblock'')
      \<and> findAction (instance_attributes res) = Some nv"
  show "getResourceTypeOfPCSResource e res
            = Some (if nv_value nv = ''block'' then PORTBLOCK_ON else PORTBLOCK_OFF)"
    unfolding getResourceTypeOfPCSResource_def
    using b by (intro classifyLoop_action) blast+
next
  assume "agent_name_type res = ''portblock'' \<and> findAction (instance_attributes res) = None"
  then show "getResourceTypeOfPCSResource e res = None"
    by (simp add: getResourceTypeOfPCSResource_def classifyLoop_no_action)
qed

theorem classification_by_agent_and_action_witness:
  "getResourceTypeOfPCSResource (exampleEnv [] [])
     \<lparr>prim_id = ''t1'', agent_name_type = ''iSCSITarget'', instance_attributes = []\<rparr> = Some TARGET
   \<and> getResourceTypeOfPCSResource (exampleEnv [] [])
     \<lparr>prim_id = ''pb1'', agent_name_type = ''portblock'',
      instance_attributes = [[\<lparr>nv_id = ''a1'', nv_name = ''action'', nv_value = ''block''\<rparr>]]\<rparr>
       = Some PORTBLOCK_ON
   \<and> getResourceTypeOfPCSResource (exampleEnv [] [])
     \<lparr>prim_id = ''pb2'', agent_name_type = ''portblock'',
      instance_attributes = [[\<lparr>nv_id = ''a1'', nv_name = ''action'', nv_value = ''unblock''\<rparr>]]\<rparr>
       = Some PORTBLOCK_OFF
   \<and> getResourceTypeOfPCSResource (exampleEnv [] [])
     \<lparr>prim_id = ''pb3'', agent_name_type = ''portblock'', instance_attributes = []\<rparr> = None"
proof -
  let ?e = "exampleEnv [] []"
  let ?t = "\<lparr>prim_id = ''t1'', agent_name_type = ''iSCSITarget'', instance_attributes = []\<rparr>"
  let ?on = "\<lparr>nv_id = ''a1'', nv_name = ''action'', nv_value = ''block''\<rparr>"
  let ?off = "\<lparr>nv_id = ''a1'', nv_name = ''action'', nv_value = ''unblock''\<rparr>"
  have 1: "getResourceTypeOfPCSResource ?e ?t = Some TARGET"
    using classification_by_agent_and_action [where e = ?e and res = ?t and ty = TARGET]
    by (simp add: exampleEnv_def exampleInfo_def)
  have 2: "getResourceTypeOfPCSResource ?e
             \<lparr>prim_id = ''pb1'', agent_name_type = ''portblock'', instance_attributes = [[?on]]\<rparr>
           = Some PORTBLOCK_ON"
    using classification_by_agent_and_action [where e = ?e and nv = ?on
        and res = "\<lparr>prim_id = ''pb1'', agent_name_type = ''portblock'', instance_attributes = [[?on]]\<rparr>"]
    by (simp add: exampleEnv_def exampleInfo_def findAction_def)
  have 3: "getResourceTypeOfPCSResource ?e
             \<lparr>prim_id = ''pb2'', agent_name_type = ''portblock'', instance_attributes = [[?off]]\<rparr>
           = Some PORTBLOCK_OFF"
    using classification_by_agent_and_action [where e = ?e and nv = ?off
        and res = "\<lparr>prim_id = ''pb2'', agent_name_type = ''portblock'', instance_attributes = [[?off]]\<rparr>"]
    by (simp add: exampleEnv_def exampleInfo_def findAction_def)
  have 4: "getResourceTypeOfPCSResource ?e
             \<lparr>prim_id = ''pb3'', agent_name_type = ''portblock'', instance_attributes = []\<rparr> = None"
    using classification_by_agent_and_action [where e = ?e
        and res = "\<lparr>prim_id = ''pb3'', agent_name_type = ''portblock'', instance_attributes = []\<rparr>"]
    by (simp add: findAction_def)
  from 1 2 3 4 show ?thesis by simp
qed

text \<open>
  C7 as stated says that a \<open>portblock\<close> primitive without an \<open>action\<close> attribute is
  \<open>PORTBLOCK_OFF\<close>; the classifier returns \<open>undefined\<close> for it.
\<close>

theorem classification_absent_action_counterexample:
  "getResourceTypeOfPCSResource (exampleEnv [] [])
     \<lparr>prim_id = ''pb1'', agent_name_type = ''portblock'',
      instance_attributes = [[\<lparr>nv_id = ''a0'', nv_name = ''ip'', nv_value = ''10.0.0.1''\<rparr>]]\<rparr>
   = None"
  by code_simp

section \<open>Name normalisation\<close>

lemma replaceFirst_first_only:
  "a \<notin> set xs \<Longrightarrow> replaceFirst a b (xs @ a # ys) = xs @ b # ys"
  by (induction xs) auto

text \<open>
  C6 at the name \<open>a:b:c\<close>: the create command is issued for \<open>a_b:c\<close>, and the resource
  appended to the cache and returned bears that name, which still has a colon.
\<close>

theorem createResource_replaces_first_colon_only:
  "fst (createResource (exampleEnv [(createCommand ''a_b:c'' ''ip=10.0.0.1'', Inr [])] [])
          (worldOf []) ''a:b:c'' ''ip=10.0.0.1'' VIP) = Ok 0
   \<and> snapshot (snd (createResource (exampleEnv [(createCommand ''a_b:c'' ''ip=10.0.0.1'', Inr [])] [])
          (worldOf []) ''a:b:c'' ''ip=10.0.0.1'' VIP)) = Some [resource ''a_b:c'' VIP None]
   \<and> issued (snd (createResource (exampleEnv [(createCommand ''a_b:c'' ''ip=10.0.0.1'', Inr [])] [])
          (worldOf []) ''a:b:c'' ''ip=10.0.0.1'' VIP)) = [createCommand ''a_b:c'' ''ip=10.0.0.1'']"
  by code_simp

section \<open>Insertion position in a group\<close>












section \<open>Anchors of a group\<close>

lemma byIdOf_name: "byIdOf ms rid = Some r \<Longrightarrow> name r = rid"
proof -
  assume "byIdOf ms rid = Some r"
  then have "(rid, r) \<in> set (rev (map (\<lambda>r. (name r, r)) ms))"
    unfolding byIdOf_def by (rule map_of_SomeD)
  then show ?thesis by auto
qed

lemma anchorLoop_find:
  assumes names: "\<And>rid r. byId rid = Some r \<Longrightarrow> name r = rid"
  shows "[] \<notin> set ids \<Longrightarrow> t = None \<or> truthy t \<Longrightarrow> p = None \<or> truthy p \<Longrightarrow>
         anchorLoop byId ids (t, p)
           = ((if truthy t then t else find (resolvesTo byId TARGET) ids),
              (if truthy p then p else find (resolvesTo byId PORTBLOCK_OFF) ids))"
proof (induction ids arbitrary: t p)
  case Nil
  then show ?case by auto
next
  case (Cons rid ids)
  from Cons.prems(1) have ne: "rid \<noteq> []" "[] \<notin> set ids" by auto
  show ?case
  proof (cases "byId rid")
    case None
    then have "\<not> resolvesTo byId TARGET rid" "\<not> resolvesTo byId PORTBLOCK_OFF rid"
      by (simp_all add: resolvesTo_def)
    with None Cons.IH [OF ne(2) Cons.prems(2,3)] show ?thesis by simp
  next
    case (Some r)
    with names have nm: "name r = rid" by simp
    let ?t = "if \<not> truthy t \<and> resourceType r = TARGET then Some (name r) else t"
    let ?p = "if \<not> truthy p \<and> resourceType r = PORTBLOCK_OFF then Some (name r) else p"
    have tp: "?t = None \<or> truthy ?t" "?p = None \<or> truthy ?p"
      using Cons.prems(2,3) nm ne(1) by auto
    have rt: "resolvesTo byId TARGET rid = (resourceType r = TARGET)"
      "resolvesTo byId PORTBLOCK_OFF rid = (resourceType r = PORTBLOCK_OFF)"
      using Some by (simp_all add: resolvesTo_def)
    show ?thesis
    proof (cases "truthy ?t \<and> truthy ?p")
      case True
      have "anchorLoop byId (rid # ids) (t, p) = (?t, ?p)"
        unfolding anchorLoop.simps Some option.case Let_def using True by (simp only: if_True simp_thms)
      also have "?t = (if truthy t then t else find (resolvesTo byId TARGET) (rid # ids))"
        using True rt nm Cons.prems(2) by (auto split: if_splits)
      also have "?p = (if truthy p then p else find (resolvesTo byId PORTBLOCK_OFF) (rid # ids))"
        using True rt nm Cons.prems(3) by (auto split: if_splits)
      finally show ?thesis .
    next
      case False
      have "anchorLoop byId (rid # ids) (t, p) = anchorLoop byId ids (?t, ?p)"
        unfolding anchorLoop.simps Some option.case Let_def using False by (simp only: if_False simp_thms)
      also have "\<dots> = ((if truthy ?t then ?t else find (resolvesTo byId TARGET) ids),
              (if truthy ?p then ?p else find (resolvesTo byId PORTBLOCK_OFF) ids))"
        by (rule Cons.IH [OF ne(2) tp])
      also have "(if truthy ?t then ?t else find (resolvesTo byId TARGET) ids)
                   = (if truthy t then t else find (resolvesTo byId TARGET) (rid # ids))"
        using rt nm ne(1) Cons.prems(2) by (auto split: if_splits)
      also have "(if truthy ?p then ?p else find (resolvesTo byId PORTBLOCK_OFF) ids)
                   = (if truthy p then p else find (resolvesTo byId PORTBLOCK_OFF) (rid # ids))"
        using rt nm ne(1) Cons.prems(3) by (auto split: if_splits)
      finally show ?thesis .
    qed
  qed
qed


lemma find_in_set: "find P xs = Some x \<Longrightarrow> x \<in> set xs"
  by (induction xs) (auto split: if_splits)

lemma asTruthy_find:
  "[] \<notin> set ids \<Longrightarrow> asTruthy (find P ids) = find P ids"
proof (cases "find P ids")
  case None
  then show ?thesis by simp
next
  case (Some x)
  assume "[] \<notin> set ids"
  with find_in_set [OF Some] have "x \<noteq> []" by auto
  with Some show ?thesis by simp
qed

text \<open>
  C4. Let the snapshot be read, the group have cached members, the configuration query
  succeed and list the group, and let the identifiers in its member list be non-empty
  strings. Then \<open>getAnchorsForGroup\<close> fails with the message
  \<open>No TARGET primitive found in group 'g'.\<close> when no identifier of the member list
  resolves to a cached member of type \<open>TARGET\<close>; otherwise it fails with the message
  \<open>No PORTBLOCK_OFF primitive found in group 'g'.\<close> when none resolves to type
  \<open>PORTBLOCK_OFF\<close>; otherwise it returns the first identifier of the member list of each
  of the two kinds. The two messages differ, whatever the group names are.
\<close>

theorem getAnchorsForGroup_first_anchors:
  assumes fetch: "fetchResources e w = (Ok refs, w1)"
    and members: "membersOf w1 refs g \<noteq> []"
    and query: "execute e (issued w1) bulkQuery = Inr out"
    and parse: "safeJsonParse e out = Inr cfg"
    and grp: "find (\<lambda>gr. group_id gr = g) (orEmpty (groups cfg)) = Some grp"
    and ids: "[] \<notin> set (member_ids grp)"
  shows "fst (getAnchorsForGroup e w g)
           = (case find (resolvesTo (byIdOf (membersOf w1 refs g)) TARGET) (member_ids grp) of
                None \<Rightarrow> Rejected (Thrown (ProcessError
                          (''No TARGET primitive found in group '' @ [CHR 0x27] @ g @ [CHR 0x27] @ ''.'')))
              | Some t \<Rightarrow>
                 (case find (resolvesTo (byIdOf (membersOf w1 refs g)) PORTBLOCK_OFF) (member_ids grp) of
                    None \<Rightarrow> Rejected (Thrown (ProcessError
                              (''No PORTBLOCK_OFF primitive found in group '' @ [CHR 0x27] @ g
                               @ [CHR 0x27] @ ''.'')))
                  | Some p \<Rightarrow> Ok (t, p)))
         \<and> (\<forall>g'. ''No TARGET primitive found in group '' @ [CHR 0x27] @ g @ [CHR 0x27] @ ''.''
                  \<noteq> ''No PORTBLOCK_OFF primitive found in group '' @ [CHR 0x27] @ g' @ [CHR 0x27] @ ''.'')"
proof -
  let ?byId = "byIdOf (membersOf w1 refs g)"
  have loop: "anchorLoop ?byId (member_ids grp) (None, None)
                = (find (resolvesTo ?byId TARGET) (member_ids grp),
                   find (resolvesTo ?byId PORTBLOCK_OFF) (member_ids grp))"
    using anchorLoop_find [of ?byId "member_ids grp" None None, OF byIdOf_name ids] by simp
  have a: "fst (getAnchorsForGroup e w g)
           = (case asTruthy (find (resolvesTo ?byId TARGET) (member_ids grp)) of
                None \<Rightarrow> Rejected (Thrown (ProcessError (noTargetMessage g)))
              | Some t \<Rightarrow>
                 (case asTruthy (find (resolvesTo ?byId PORTBLOCK_OFF) (member_ids grp)) of
                    None \<Rightarrow> Rejected (Thrown (ProcessError (noPortBlockOffMessage g)))
                  | Some p \<Rightarrow> Ok (t, p)))"
    using fetch members query parse grp
    by (simp add: getAnchorsForGroup_def run_def loop split: option.splits)
  have b: "\<forall>g'. ''No TARGET primitive found in group '' @ [CHR 0x27] @ g @ [CHR 0x27] @ ''.''
                  \<noteq> ''No PORTBLOCK_OFF primitive found in group '' @ [CHR 0x27] @ g' @ [CHR 0x27] @ ''.''"
    by simp
  from a have a': "fst (getAnchorsForGroup e w g)
           = (case find (resolvesTo ?byId TARGET) (member_ids grp) of
                None \<Rightarrow> Rejected (Thrown (ProcessError
                          (''No TARGET primitive found in group '' @ [CHR 0x27] @ g @ [CHR 0x27] @ ''.'')))
              | Some t \<Rightarrow>
                 (case find (resolvesTo ?byId PORTBLOCK_OFF) (member_ids grp) of
                    None \<Rightarrow> Rejected (Thrown (ProcessError
                              (''No PORTBLOCK_OFF primitive found in group '' @ [CHR 0x27] @ g
                               @ [CHR 0x27] @ ''.'')))
                  | Some p \<Rightarrow> Ok (t, p)))"
    unfolding asTruthy_find [OF ids] noTargetMessage_def noPortBlockOffMessage_def .
  show ?thesis by (rule conjI [OF a' b])
qed

theorem getAnchorsForGroup_first_anchors_witness:
  "fst (getAnchorsForGroup configEnv (worldOf [g1Vip, g1Target, g1PortBlockOff]) ''g1'')
     = Ok (''g1_TARGET_1'', ''g1_pb_off'')
   \<and> fst (getAnchorsForGroup configEnv (worldOf [g1Vip, g1PortBlockOff]) ''g1'')
     = Rejected (Thrown (ProcessError ''No TARGET primitive found in group 'g1'.''))
   \<and> fst (getAnchorsForGroup configEnv (worldOf [g1Vip, g1Target]) ''g1'')
     = Rejected (Thrown (ProcessError ''No PORTBLOCK_OFF primitive found in group 'g1'.''))"
proof -
  let ?grp = "\<lparr>group_id = ''g1'', member_ids = [''g1_VIP_1'', ''g1_TARGET_1'', ''g1_pb_off'']\<rparr>"
  let ?W1 = "worldOf [g1Vip, g1Target, g1PortBlockOff]"
  let ?W2 = "worldOf [g1Vip, g1PortBlockOff]"
  let ?W3 = "worldOf [g1Vip, g1Target]"
  have h: "fetchResources configEnv ?W1 = (Ok [0, 1, 2], ?W1)"
    "fetchResources configEnv ?W2 = (Ok [0, 1], ?W2)"
    "fetchResources configEnv ?W3 = (Ok [0, 1], ?W3)"
    by (simp_all add: fetchResources_def worldOf_def)
  have m: "membersOf ?W1 [0, 1, 2] ''g1'' \<noteq> []" "membersOf ?W2 [0, 1] ''g1'' \<noteq> []"
    "membersOf ?W3 [0, 1] ''g1'' \<noteq> []"
    by (simp_all add: membersOf_def worldOf_def deref_def g1Vip_def resource_def)
  have q: "execute configEnv (issued ?W1) bulkQuery = Inr ''{json}''"
    "execute configEnv (issued ?W2) bulkQuery = Inr ''{json}''"
    "execute configEnv (issued ?W3) bulkQuery = Inr ''{json}''"
    by (simp_all add: configEnv_def exampleEnv_def tableServer_def)
  have p: "safeJsonParse configEnv ''{json}'' = Inr exampleConfig"
    by (simp add: configEnv_def exampleEnv_def)
  have g: "find (\<lambda>gr. group_id gr = ''g1'') (orEmpty (groups exampleConfig)) = Some ?grp"
    by (simp add: exampleConfig_def orEmpty_def)
  have i: "[] \<notin> set (member_ids ?grp)" by simp
  have t1: "find (resolvesTo (byIdOf (membersOf ?W1 [0, 1, 2] ''g1'')) TARGET) (member_ids ?grp)
              = Some ''g1_TARGET_1''"
    by code_simp
  have p1: "find (resolvesTo (byIdOf (membersOf ?W1 [0, 1, 2] ''g1'')) PORTBLOCK_OFF) (member_ids ?grp)
              = Some ''g1_pb_off''"
    by code_simp
  have t2: "find (resolvesTo (byIdOf (membersOf ?W2 [0, 1] ''g1'')) TARGET) (member_ids ?grp) = None"
    by code_simp
  have t3: "find (resolvesTo (byIdOf (membersOf ?W3 [0, 1] ''g1'')) TARGET) (member_ids ?grp)
              = Some ''g1_TARGET_1''"
    by code_simp
  have p3: "find (resolvesTo (byIdOf (membersOf ?W3 [0, 1] ''g1'')) PORTBLOCK_OFF) (member_ids ?grp)
              = None"
    by code_simp
  have 1: "fst (getAnchorsForGroup configEnv ?W1 ''g1'') = Ok (''g1_TARGET_1'', ''g1_pb_off'')"
    using getAnchorsForGroup_first_anchors [OF h(1) m(1) q(1) p g i, THEN conjunct1]
    unfolding t1 p1 by simp
  have 2: "fst (getAnchorsForGroup configEnv ?W2 ''g1'')
             = Rejected (Thrown (ProcessError ''No TARGET primitive found in group 'g1'.''))"
    using getAnchorsForGroup_first_anchors [OF h(2) m(2) q(2) p g i, THEN conjunct1]
    unfolding t2 by simp
  have 3: "fst (getAnchorsForGroup configEnv ?W3 ''g1'')
             = Rejected (Thrown (ProcessError ''No PORTBLOCK_OFF primitive found in group 'g1'.''))"
    using getAnchorsForGroup_first_anchors [OF h(3) m(3) q(3) p g i, THEN conjunct1]
    unfolding t3 p3 by simp
  from 1 2 3 show ?thesis by simp
qed

section \<open>Role preference and majority vote\<close>










lemma find_sat: "find P xs = Some x \<Longrightarrow> P x \<and> x \<in> set xs"
  by (induction xs) (auto split: if_splits)








lemma preferred_Some: "preferred marker pm = Some n \<Longrightarrow> n \<noteq> []"
proof -
  assume a: "preferred marker pm = Some n"
  then obtain x where f: "find (\<lambda>x. includesStr (fst x) marker \<and> truthy (snd x)) pm = Some x"
    and sx: "snd x = Some n"
    by (auto simp: preferred_def split: option.splits)
  from find_sat [OF f] have "truthy (snd x)" by simp
  with sx show ?thesis by simp
qed

lemma truthy_preferred: "truthy (preferred marker pm) = (preferred marker pm \<noteq> None)"
proof (cases "preferred marker pm")
  case None
  then show ?thesis by simp
next
  case (Some n)
  with preferred_Some [OF Some] show ?thesis by simp
qed














section \<open>The resolver's expressions on sample output\<close>

lemma parseLocate_examples:
  "parseLocate ''resource g1_VIP_1 is running on: node1'' = Some ''node1''"
  "parseLocate ''resource g1_VIP_1 is NOT running'' = None"
  by code_simp+

text \<open>A no-break space between the colon and the node is white space for \<open>\s+\<close>.\<close>

lemma parseLocate_no_break_space:
  "parseLocate (''is running on:'' @ [CHR 0xA0] @ ''nodeB'') = Some ''nodeB''"
  by code_simp

text \<open>
  The header expression folds case also in Latin-1: the group \<open>g\<close>\<open>0xE9\<close> is found under
  the header written \<open>G\<close>\<open>0xC9\<close>.
\<close>

lemma parseGroupFromStatusText_latin1:
  "parseGroupFromStatusText
     (''* Resource Group: G'' @ [CHR 0xC9] @ '':'' @ [CHR 0x0A] @ '' * r1 Started node1'')
     (''g'' @ [CHR 0xE9])
   = Some ''node1''"
  by code_simp

lemma parseGroupFromStatusText_example:
  "parseGroupFromStatusText
     (''* Resource Group: g1:'' @ [CHR 0x0A] @ '' * rbd_g1 (ocf:ceph:rbd): Started node3'') ''g1''
   = Some ''node3''"
  by code_simp

section \<open>The inactive group\<close>






section \<open>The cache after a failed command\<close>

text \<open>
  \<open>createResource\<close>, \<open>deleteResource\<close> and \<open>deleteResourceGroup\<close> update the cache in the
  \<open>map\<close> callback that runs after the command has succeeded: when they fail inside the
  result channel, the cached resources are the ones from before the call.
\<close>

lemma deref_issued: "deref (w\<lparr>issued := cmds\<rparr>) = deref w"
  by (rule ext) (simp add: deref_def)

lemma run_snapshot: "run e w cmd = (r, w1) \<Longrightarrow> snapshot w1 = snapshot w"
  by (auto simp: run_def snapshot_def deref_issued)

lemma createResource_failure_keeps_cache:
  "fst (createResource e w nm creationArguments ty) = Err err
   \<Longrightarrow> snapshot (snd (createResource e w nm creationArguments ty)) = snapshot w"
  by (auto simp: createResource_def Let_def run_def alloc_def snapshot_def deref_issued
           split: sum.splits option.splits)

lemma deleteResource_failure_keeps_cache:
  "fst (deleteResource e w nm) = Err err \<Longrightarrow> snapshot (snd (deleteResource e w nm)) = snapshot w"
  by (auto simp: deleteResource_def run_def snapshot_def deref_issued
           split: sum.splits option.splits)

lemma deleteResourceGroup_failure_keeps_cache:
  "fst (deleteResourceGroup e w g) = Err err
   \<Longrightarrow> snapshot (snd (deleteResourceGroup e w g)) = snapshot w"
  by (auto simp: deleteResourceGroup_def run_def snapshot_def deref_issued
           split: sum.splits option.splits)

text \<open>
  C5 at a failing group-add command. \<open>createResource\<close> returns the object it has put
  into the cache; \<open>addResourceToGroup\<close> assigns its \<open>resourceGroup\<close> before it executes
  the command. The server rejects the command, the call fails, and the cached resource
  refers to the group all the same.
\<close>

theorem addResourceToGroup_failure_changes_cache:
  "fst (createResource lunEnv (worldOf [g1Vip, g1Target]) ''new_lun'' ''path=/dev/rbd0'' (OTHER 1)) = Ok 2
   \<and> snapshot createdWorld = Some [g1Vip, g1Target, resource ''new_lun'' (OTHER 1) None]
   \<and> fst (addResourceToGroup lunEnv createdWorld 2 ''g1'') = Err (ProcessError ''command failed'')
   \<and> snapshot (snd (addResourceToGroup lunEnv createdWorld 2 ''g1''))
       = Some [g1Vip, g1Target, resource ''new_lun'' (OTHER 1) (Some ''g1'')]"
  by code_simp

end
